theory Spec2Isabelle
  imports Complex_Main "HOL-Library.Multiset"
begin

section \<open>Python values shared by both samplers\<close>

text \<open>The exceptions that the modelled code can raise.\<close>

datatype error =
    AssertionError
  | ValueError
  | ZeroDivisionError
  | NotImplementedError
  | RuntimeError

text \<open>
  \<open>range(start, stop, step)\<close> for a positive step, as the list of its values.
  A zero step raises in Python; the callers below test for it before they use the list.
\<close>

definition py_range :: "nat \<Rightarrow> nat \<Rightarrow> nat \<Rightarrow> nat list" where
  "py_range start stop step =
     map (\<lambda>i. start + i * step) [0..<(stop - start + step - 1) div step]"

text \<open>The slice \<open>xs[i : j]\<close> for \<open>0 \<le> i\<close>.\<close>

definition slice :: "'a list \<Rightarrow> nat \<Rightarrow> nat \<Rightarrow> 'a list" where
  "slice xs i j = take (j - i) (drop i xs)"

section \<open>The sequential fallback sampler (mocked/batch\_sampler.py)\<close>

record mocked_sampler =
  train_ds_len :: nat
  micro_num :: int
  batch_count :: int
  num_consumed_samples_in_epoch :: int

definition mocked_init :: "nat \<Rightarrow> int \<Rightarrow> mocked_sampler" where
  "mocked_init n m =
     \<lparr>train_ds_len = n, micro_num = m, batch_count = 0, num_consumed_samples_in_epoch = 0\<rparr>"

text \<open>
  One pass of the loop body of \<open>__iter__\<close> for every \<open>start\<close> of the range, threading
  the two counters; the batches are returned in the order they are yielded.
\<close>

fun mocked_loop :: "nat \<Rightarrow> nat \<Rightarrow> nat list \<Rightarrow> mocked_sampler \<Rightarrow> nat list list \<times> mocked_sampler" where
  "mocked_loop n m [] s = ([], s)"
| "mocked_loop n m (start # starts) s =
     (let end = min (start + m) n;
          s1 = s\<lparr>batch_count := batch_count s + 1\<rparr>;
          s2 = s1\<lparr>num_consumed_samples_in_epoch :=
                    num_consumed_samples_in_epoch s1 + (int end - int start)\<rparr>;
          (bs, s3) = mocked_loop n m starts s2
      in ([start..<end] # bs, s3))"

definition mocked_iter :: "mocked_sampler \<Rightarrow> error + (nat list list \<times> mocked_sampler)" where
  "mocked_iter s =
     (let num_samples = train_ds_len s in
      if micro_num s = 0 then Inl ValueError
      else if micro_num s < 0 then Inr ([], s)
      else Inr (mocked_loop num_samples (nat (micro_num s))
                  (py_range 0 num_samples (nat (micro_num s))) s))"

definition mocked_len :: "mocked_sampler \<Rightarrow> error + int" where
  "mocked_len s =
     (if micro_num s = 0 then Inl ZeroDivisionError
      else Inr ((int (train_ds_len s) + micro_num s - 1) div micro_num s))"

section \<open>The grouped sampler (lumina\_pickle/sampler.py)\<close>

subsection \<open>Collaborators\<close>

text \<open>
  One entry of \<open>dataset.meta_list\<close>. The keys \<open>type\<close>, \<open>len\<close>, \<open>item_len_list\<close> are
  required, \<open>ratio\<close> is optional. The ratio is a Python float; it is modelled by a rational
  and the float product \<open>meta["len"] * meta["ratio"]\<close> by the exact rational product.
\<close>

record meta =
  meta_type :: string
  meta_len :: nat
  item_len_list :: "nat list"
  ratio :: "rat option"

text \<open>The dataset: what \<open>len(dataset)\<close> returns, and its \<open>meta_list\<close>.\<close>

record dataset =
  ds_len :: nat
  meta_list :: "meta list"

text \<open>
  The data-parallel dimension of the global context \<open>gpc\<close>:
  \<open>gpc.get_world_size(ParallelMode.DATA)\<close> and \<open>gpc.get_local_rank(ParallelMode.DATA)\<close>.
\<close>

record parallel_context =
  world_size :: nat
  local_rank :: nat

text \<open>
  numpy's random generator is not part of the repository and is a parameter of the model,
  over any type \<open>'g\<close> of generator states. \<open>default_rng\<close> seeds a generator.
  \<open>rng_choice g n k\<close> gives the positions that \<open>choice(a, k, replace=False)\<close> picks in a
  sequence \<open>a\<close> of \<open>n\<close> rows, and \<open>rng_permutation g n\<close> the positions in whose order
  \<open>shuffle\<close> rearranges a sequence of \<open>n\<close> elements; both return the advanced state.
\<close>

record 'g generator =
  default_rng :: "int \<Rightarrow> 'g"
  rng_choice :: "'g \<Rightarrow> nat \<Rightarrow> nat \<Rightarrow> nat list \<times> 'g"
  rng_permutation :: "'g \<Rightarrow> nat \<Rightarrow> nat list \<times> 'g"

text \<open>
  What the sampler relies on: a sample without replacement is made of distinct positions
  of the population, and a shuffle is a permutation.
\<close>

definition generator_ok :: "'g generator \<Rightarrow> bool" where
  "generator_ok G \<longleftrightarrow>
     (\<forall>g n k. k \<le> n \<longrightarrow>
        length (fst (rng_choice G g n k)) = k \<and> distinct (fst (rng_choice G g n k)) \<and>
        set (fst (rng_choice G g n k)) \<subseteq> {..<n}) \<and>
     (\<forall>g n. mset (fst (rng_permutation G g n)) = mset [0..<n])"

text \<open>\<open>rng.choice(a, size, replace=False)\<close>: a negative size and a size above the population raise.\<close>

definition choice :: "'g generator \<Rightarrow> 'g \<Rightarrow> 'a list \<Rightarrow> int \<Rightarrow> error + 'a list \<times> 'g" where
  "choice G g a k =
     (if k < 0 \<or> int (length a) < k then Inl ValueError
      else let (ps, g') = rng_choice G g (length a) (nat k)
           in Inr (map (nth a) ps, g'))"

text \<open>\<open>rng.shuffle(xs)\<close>, returning the shuffled list in place of the mutation.\<close>

definition shuffle_list :: "'g generator \<Rightarrow> 'g \<Rightarrow> 'a list \<Rightarrow> 'a list \<times> 'g" where
  "shuffle_list G g xs =
     (let (ps, g') = rng_permutation G g (length xs) in (map (nth xs) ps, g'))"

text \<open>A generator to run the model on: it rotates by a counter.\<close>

definition rotating :: "nat generator" where
  "rotating =
     \<lparr>default_rng = (\<lambda>sd. nat sd),
      rng_choice = (\<lambda>g n k. (take k (rotate g [0..<n]), Suc g)),
      rng_permutation = (\<lambda>g n. (rotate g [0..<n], Suc g))\<rparr>"

subsection \<open>Python helpers\<close>

text \<open>\<open>int(x)\<close> on a float truncates toward zero.\<close>

definition py_int :: "rat \<Rightarrow> int" where
  "py_int q = (if 0 \<le> q then \<lfloor>q\<rfloor> else \<lceil>q\<rceil>)"

text \<open>\<open>meta.get("ratio", 1.0)\<close>\<close>

definition meta_ratio :: "meta \<Rightarrow> rat" where
  "meta_ratio m = (case ratio m of None \<Rightarrow> 1 | Some r \<Rightarrow> r)"

text \<open>\<open>int(meta["len"] * meta.get("ratio", 1.0))\<close>\<close>

definition scaled_len :: "meta \<Rightarrow> int" where
  "scaled_len m = py_int (of_nat (meta_len m) * meta_ratio m)"

text \<open>
  \<open>d[k] = f(d[k])\<close> on a \<open>defaultdict\<close> whose missing entries read as \<open>dflt\<close>; the
  dictionary is an association list in insertion order, as Python iterates it.
\<close>

fun default_update :: "'k \<Rightarrow> ('v \<Rightarrow> 'v) \<Rightarrow> 'v \<Rightarrow> ('k \<times> 'v) list \<Rightarrow> ('k \<times> 'v) list" where
  "default_update k f dflt [] = [(k, f dflt)]"
| "default_update k f dflt ((k', v) # d) =
     (if k' = k then (k', f v) # d else (k', v) # default_update k f dflt d)"

text \<open>\<open>xs[i:]\<close> for any integer \<open>i\<close>: a negative start counts from the end, clipped at 0.\<close>

definition slice_from :: "'a list \<Rightarrow> int \<Rightarrow> 'a list" where
  "slice_from xs i =
     (if 0 \<le> i then drop (nat i) xs else drop (length xs - nat (- i)) xs)"

text \<open>\<open>[xs[i : i + n] for i in range(0, len(xs), n)]\<close>\<close>

definition chunks :: "'a list \<Rightarrow> nat \<Rightarrow> 'a list list" where
  "chunks xs n = map (\<lambda>i. slice xs i (i + n)) (py_range 0 (length xs) n)"

subsection \<open>LuminaPickleSampler\<close>

record sampler =
  dataset :: dataset
  num_replicas :: nat
  rank :: nat
  shuffle :: bool
  seed :: int
  micro_batch_size :: nat
  acc_grad :: nat
  length_clustering :: bool
  allow_mixed_task_among_acc :: bool
  epoch :: int
  start_iter :: int
  total_size :: int
  num_samples :: int

text \<open>The loop of \<open>__init__\<close> that fills \<open>group_len\<close>.\<close>

definition group_len_sums :: "meta list \<Rightarrow> (string \<times> int) list" where
  "group_len_sums metas =
     fold (\<lambda>meta d. default_update (meta_type meta) (\<lambda>v. v + scaled_len meta) 0 d) metas []"

text \<open>The dictionary comprehension that aligns every group to \<open>global_bsz_acc\<close>.\<close>

definition group_len_aligned :: "nat \<Rightarrow> (string \<times> int) list \<Rightarrow> (string \<times> int) list" where
  "group_len_aligned global_bsz_acc d =
     map (\<lambda>(key, val). (key, val div int global_bsz_acc * int global_bsz_acc)) d"

definition sampler_init ::
  "parallel_context \<Rightarrow> dataset \<Rightarrow> nat \<Rightarrow> nat \<Rightarrow> bool \<Rightarrow> int \<Rightarrow> bool \<Rightarrow> bool \<Rightarrow> error + sampler" where
  "sampler_init gpc ds mbs acc shuf sd clustering mixed =
     (let nr = world_size gpc;
          global_bsz_acc = mbs * nr * acc;
          group_len = group_len_sums (meta_list ds)
      in if group_len \<noteq> [] \<and> global_bsz_acc = 0 then Inl ZeroDivisionError
         else
           let total = sum_list (map snd (group_len_aligned global_bsz_acc group_len))
           in if nr = 0 then Inl ZeroDivisionError
              else if total mod int nr \<noteq> 0 then Inl AssertionError
              else Inr \<lparr>dataset = ds, num_replicas = nr, rank = local_rank gpc,
                         shuffle = shuf, seed = sd, micro_batch_size = mbs, acc_grad = acc,
                         length_clustering = clustering, allow_mixed_task_among_acc = mixed,
                         epoch = 0, start_iter = 0,
                         total_size = total, num_samples = total div int nr\<rparr>)"

definition set_epoch :: "sampler \<Rightarrow> int \<Rightarrow> int \<Rightarrow> sampler" where
  "set_epoch s e k = s\<lparr>epoch := e, start_iter := k\<rparr>"

definition sampler_len :: "sampler \<Rightarrow> int" where
  "sampler_len s = num_samples s"

text \<open>
  The first loop of \<open>__iter__\<close>: every partition's (index, length) pairs, subsampled when
  its ratio is not 1.0, appended to the list of its group.
\<close>

fun collect_groups ::
  "'g generator \<Rightarrow> meta list \<Rightarrow> nat \<Rightarrow> 'g \<Rightarrow> (string \<times> (nat \<times> nat) list) list
     \<Rightarrow> error + (string \<times> (nat \<times> nat) list) list \<times> 'g" where
  "collect_groups G [] start_idx g grp = Inr (grp, g)"
| "collect_groups G (meta # metas) start_idx g grp =
     (let end_idx = start_idx + meta_len meta;
          indices = [start_idx..<end_idx]
      in if length indices \<noteq> length (item_len_list meta) then Inl AssertionError
         else
           let indices_and_len = zip indices (item_len_list meta)
           in case (if meta_ratio meta \<noteq> 1
                    then choice G g indices_and_len (scaled_len meta)
                    else Inr (indices_and_len, g)) of
                Inl e \<Rightarrow> Inl e
              | Inr (sel, g') \<Rightarrow>
                  collect_groups G metas end_idx g'
                    (default_update (meta_type meta) (\<lambda>l. l @ sel) [] grp))"

text \<open>The second loop: every group is cut down to a multiple of \<open>global_bsz_acc\<close>.\<close>

definition truncate_groups ::
  "nat \<Rightarrow> (string \<times> 'a list) list \<Rightarrow> error + (string \<times> 'a list) list" where
  "truncate_groups global_bsz_acc grp =
     (if grp \<noteq> [] \<and> global_bsz_acc = 0 then Inl ZeroDivisionError
      else Inr (map (\<lambda>(name, l). (name, take (length l div global_bsz_acc * global_bsz_acc) l)) grp))"

text \<open>Length clustering: sort every group by length, then shuffle block by block.\<close>

fun shuffle_blocks :: "'g generator \<Rightarrow> 'a list \<Rightarrow> nat \<Rightarrow> nat list \<Rightarrow> 'g \<Rightarrow> 'a list \<times> 'g" where
  "shuffle_blocks G indices block [] g = ([], g)"
| "shuffle_blocks G indices block (pos # poss) g =
     (let (sublist, g1) = shuffle_list G g (slice indices pos (pos + block));
          (result, g2) = shuffle_blocks G indices block poss g1
      in (sublist @ result, g2))"

fun cluster_groups ::
  "'g generator \<Rightarrow> nat \<Rightarrow> (string \<times> nat list) list \<Rightarrow> 'g \<Rightarrow> (string \<times> nat list) list \<times> 'g" where
  "cluster_groups G global_batch_size [] g = ([], g)"
| "cluster_groups G global_batch_size ((name, indices) # rest) g =
     (let (result, g1) = shuffle_blocks G indices (global_batch_size * 500)
                           (py_range 0 (length indices) (global_batch_size * 500)) g;
          (rest', g2) = cluster_groups G global_batch_size rest g1
      in ((name, result) # rest', g2))"

text \<open>Without clustering: shuffle every group as a whole.\<close>

fun shuffle_groups ::
  "'g generator \<Rightarrow> (string \<times> (nat \<times> nat) list) list \<Rightarrow> 'g \<Rightarrow> (string \<times> nat list) list \<times> 'g" where
  "shuffle_groups G [] g = ([], g)"
| "shuffle_groups G ((name, indices_and_len) # rest) g =
     (let (shuffled, g1) = shuffle_list G g indices_and_len;
          (rest', g2) = shuffle_groups G rest g1
      in ((name, map fst shuffled) # rest', g2))"

text \<open>
  \<open>allow_mixed_task_among_acc\<close> false: per group, the global batches are shuffled and every
  \<open>acc_grad\<close> consecutive ones are concatenated.
\<close>

fun accumulate_groups ::
  "'g generator \<Rightarrow> nat \<Rightarrow> nat \<Rightarrow> (string \<times> nat list) list \<Rightarrow> 'g \<Rightarrow> nat list list \<times> 'g" where
  "accumulate_groups G global_batch_size acc [] g = ([], g)"
| "accumulate_groups G global_batch_size acc ((name, indices) # rest) g =
     (let (group_batched_indices, g1) = shuffle_list G g (chunks indices global_batch_size);
          units = map (\<lambda>i. concat (slice group_batched_indices i (i + acc)))
                    (py_range 0 (length group_batched_indices) acc);
          (rest', g2) = accumulate_groups G global_batch_size acc rest g1
      in (units @ rest', g2))"

text \<open>
  Lines 100 to 178 of \<open>__iter__\<close>: the global flat permutation. numpy rejects a negative
  seed with a \<open>ValueError\<close>.
\<close>

definition global_indices :: "'g generator \<Rightarrow> sampler \<Rightarrow> error + nat list" where
  "global_indices G s =
     (let global_batch_size = micro_batch_size s * num_replicas s;
          global_bsz_acc = micro_batch_size s * num_replicas s * acc_grad s
      in if seed s + epoch s < 0 then Inl ValueError
         else
           case collect_groups G (meta_list (dataset s)) 0 (default_rng G (seed s + epoch s)) [] of
             Inl e \<Rightarrow> Inl e
           | Inr (collected, g1) \<Rightarrow>
              (case truncate_groups global_bsz_acc collected of
                 Inl e \<Rightarrow> Inl e
               | Inr group_indices_and_len \<Rightarrow>
                   if shuffle s then
                     let (group_indices, g2) =
                           (if length_clustering s
                            then cluster_groups G global_batch_size
                                   (map (\<lambda>(name, l). (name, map fst (sort_key snd l)))
                                      group_indices_and_len) g1
                            else shuffle_groups G group_indices_and_len g1);
                         (global_batched_indices, g3) =
                           (if allow_mixed_task_among_acc s
                            then (concat (map (\<lambda>(name, indices). chunks indices global_batch_size)
                                            group_indices), g2)
                            else accumulate_groups G global_batch_size (acc_grad s) group_indices g2);
                         (shuffled, g4) = shuffle_list G g3 global_batched_indices;
                         indices = concat shuffled
                     in if int (length indices) \<noteq> total_size s then Inl AssertionError
                        else Inr indices
                   else Inl NotImplementedError))"

text \<open>Lines 180 to 185: the share of this rank, taken with a fixed stride.\<close>

definition own_indices :: "sampler \<Rightarrow> nat list \<Rightarrow> error + nat list" where
  "own_indices s indices =
     (if num_replicas s * micro_batch_size s = 0 then Inl ValueError
      else
        let own = fold (\<lambda>start_pos own. own @ slice indices start_pos (start_pos + micro_batch_size s))
                    (py_range (rank s * micro_batch_size s) (length indices)
                       (num_replicas s * micro_batch_size s)) []
        in if int (length own) \<noteq> num_samples s then Inl AssertionError else Inr own)"

text \<open>Lines 187 to 190: the resume offset.\<close>

definition resume :: "sampler \<Rightarrow> nat list \<Rightarrow> nat list" where
  "resume s own =
     (if start_iter s * int (micro_batch_size s) > int (length own) then []
      else slice_from own (start_iter s * int (micro_batch_size s)))"

definition sampler_iter :: "'g generator \<Rightarrow> sampler \<Rightarrow> error + nat list" where
  "sampler_iter G s =
     (case global_indices G s of
        Inl e \<Rightarrow> Inl e
      | Inr indices \<Rightarrow>
         (case own_indices s indices of
            Inl e \<Rightarrow> Inl e
          | Inr own \<Rightarrow> Inr (resume s own)))"

subsection \<open>LuminaPickleBatchSampler\<close>

record batch_sampler =
  single_sampler :: sampler
  num_batches :: nat
  batch_micro_batch_size :: nat

definition batch_sampler_init ::
  "parallel_context \<Rightarrow> dataset \<Rightarrow> nat \<Rightarrow> nat \<Rightarrow> bool \<Rightarrow> int \<Rightarrow> bool \<Rightarrow> bool \<Rightarrow> error + batch_sampler" where
  "batch_sampler_init gpc ds mbs acc shuf sd clustering mixed =
     (case sampler_init gpc ds mbs acc shuf sd clustering mixed of
        Inl e \<Rightarrow> Inl e
      | Inr s \<Rightarrow>
          if mbs = 0 \<or> world_size gpc = 0 then Inl ZeroDivisionError
          else Inr \<lparr>single_sampler = s,
                     num_batches = ds_len ds div mbs div world_size gpc,
                     batch_micro_batch_size = mbs\<rparr>)"

text \<open>
  The generator \<open>__iter__\<close> of the wrapper, run to its end: the batches it yields and the
  exception that ends it, if any. \<open>next\<close> on the exhausted inner iterator raises
  \<open>StopIteration\<close> inside the generator, which Python turns into a \<open>RuntimeError\<close>.
\<close>

fun pull_batches :: "nat \<Rightarrow> nat \<Rightarrow> nat list \<Rightarrow> nat list list \<times> error option" where
  "pull_batches 0 mbs single_iter = ([], None)"
| "pull_batches (Suc k) mbs single_iter =
     (if length single_iter < mbs then ([], Some RuntimeError)
      else let (rest, e) = pull_batches k mbs (drop mbs single_iter)
           in (take mbs single_iter # rest, e))"

definition batch_sampler_iter :: "'g generator \<Rightarrow> batch_sampler \<Rightarrow> nat list list \<times> error option" where
  "batch_sampler_iter G b =
     (case sampler_iter G (single_sampler b) of
        Inl e \<Rightarrow> ([], Some e)
      | Inr single_iter \<Rightarrow> pull_batches (num_batches b) (batch_micro_batch_size b) single_iter)"

definition batch_sampler_len :: "batch_sampler \<Rightarrow> nat" where
  "batch_sampler_len b = num_batches b"

subsection \<open>The global index space\<close>

text \<open>
  The group of a global index: the \<open>type\<close> of the partition whose range, in the order of
  \<open>meta_list\<close>, holds it.
\<close>

fun group_of :: "meta list \<Rightarrow> nat \<Rightarrow> string option" where
  "group_of [] i = None"
| "group_of (meta # metas) i =
     (if i < meta_len meta then Some (meta_type meta) else group_of metas (i - meta_len meta))"

section \<open>Properties of the sequential fallback sampler\<close>

lemma py_range_zero: "py_range 0 n m = map (\<lambda>i. i * m) [0..<(n + m - 1) div m]"
  by (simp add: py_range_def)

lemma mocked_loop_fst:
  "fst (mocked_loop n m starts s) = map (\<lambda>st. [st..<min (st + m) n]) starts"
  by (induction starts arbitrary: s) (simp_all add: Let_def case_prod_beta)

lemma mocked_loop_batch_count:
  "batch_count (snd (mocked_loop n m starts s)) = batch_count s + int (length starts)"
  by (induction starts arbitrary: s) (simp_all add: Let_def case_prod_beta)

lemma mocked_loop_consumed:
  "num_consumed_samples_in_epoch (snd (mocked_loop n m starts s)) =
     num_consumed_samples_in_epoch s + (\<Sum>st\<leftarrow>starts. int (min (st + m) n) - int st)"
  by (induction starts arbitrary: s) (simp_all add: Let_def case_prod_beta)

lemma mocked_loop_other:
  "train_ds_len (snd (mocked_loop n m starts s)) = train_ds_len s \<and>
   micro_num (snd (mocked_loop n m starts s)) = micro_num s"
  by (induction starts arbitrary: s) (simp_all add: Let_def case_prod_beta)

lemma ceil_div_less:
  assumes m: "0 < m" and k: "k < (n + m - 1) div m"
  shows "k * m < (n::nat)"
proof -
  from k have "Suc k \<le> (n + m - 1) div m" by simp
  then have "Suc k * m \<le> n + m - 1" using m by (simp only: less_eq_div_iff_mult_less_eq)
  then have "k * m + m \<le> n + m - 1" by (simp only: mult_Suc add.commute)
  then show ?thesis using m by linarith
qed

lemma ceil_div_cover:
  assumes m: "0 < m"
  shows "n \<le> ((n + m - 1) div m) * (m::nat)"
proof -
  have "(n + m - 1) mod m < m" using m by simp
  moreover have "((n + m - 1) div m) * m + (n + m - 1) mod m = n + m - 1"
    by (rule div_mult_mod_eq)
  ultimately show ?thesis using m by linarith
qed

lemma concat_runs:
  "0 < m \<Longrightarrow> k \<le> (n + m - 1) div m \<Longrightarrow>
   concat (map (\<lambda>st. [st..<min (st + m) n]) (map (\<lambda>i. i * m) [0..<k])) = [0..<min (k * m) n]"
proof (induction k)
  case 0
  then show ?case by simp
next
  case (Suc k)
  then have lt: "k * m < n" using ceil_div_less [of m k n] by simp
  from Suc have IH: "concat (map (\<lambda>st. [st..<min (st + m) n]) (map (\<lambda>i. i * m) [0..<k])) = [0..<min (k * m) n]"
    by simp
  define d where "d = min (k * m + m) n - k * m"
  have d: "min (k * m + m) n = k * m + d"
    using lt by (simp add: d_def)
  have e: "Suc k * m = k * m + m" by simp
  have app: "[0..<k * m] @ [k * m..<min (k * m + m) n] = [0..<min (k * m + m) n]"
    using upt_add_eq_append [of 0 "k * m" d] unfolding d by simp
  have mn: "min (k * m) n = k * m" using lt by simp
  have "concat (map (\<lambda>st. [st..<min (st + m) n]) (map (\<lambda>i. i * m) [0..<Suc k]))
      = concat (map (\<lambda>st. [st..<min (st + m) n]) (map (\<lambda>i. i * m) [0..<k])) @ [k * m..<min (k * m + m) n]"
    by simp
  also have "\<dots> = [0..<k * m] @ [k * m..<min (k * m + m) n]"
    by (simp only: IH mn)
  also have "\<dots> = [0..<min (Suc k * m) n]"
    by (simp only: app e)
  finally show ?case .
qed


lemma consumed_runs:
  "0 < m \<Longrightarrow> k \<le> (n + m - 1) div m \<Longrightarrow>
   (\<Sum>st\<leftarrow>map (\<lambda>i. i * m) [0..<k]. int (min (st + m) n) - int st) = int (min (k * m) n)"
proof (induction k)
  case 0
  then show ?case by simp
next
  case (Suc k)
  then have lt: "k * m < n" using ceil_div_less [of m k n] by simp
  from Suc have IH: "(\<Sum>st\<leftarrow>map (\<lambda>i. i * m) [0..<k]. int (min (st + m) n) - int st) = int (min (k * m) n)"
    by simp
  have mn: "min (k * m) n = k * m" using lt by simp
  have e: "Suc k * m = k * m + m" by simp
  show ?case unfolding e using IH mn by simp
qed

lemma ceiling_div_nat:
  assumes m: "0 < m"
  shows "\<lceil>real n / real m\<rceil> = int ((n + m - 1) div m)"
proof (rule ceiling_unique)
  let ?c = "(n + m - 1) div m"
  have "n \<le> ?c * m" using m by (rule ceil_div_cover)
  then have "real n \<le> real ?c * real m" by (metis of_nat_le_iff of_nat_mult)
  then show "real n / real m \<le> of_int (int ?c)" using m by (simp add: field_simps)
  show "of_int (int ?c) - 1 < real n / real m"
  proof (cases "?c")
    case 0
    have "(0::real) \<le> real n / real m" by simp
    then have "- 1 < real n / real m" by linarith
    then show ?thesis using 0 by simp
  next
    case (Suc k)
    then have "k * m < n" using ceil_div_less [OF m, of k n] by simp
    then have "real k * real m < real n" by (metis of_nat_less_iff of_nat_mult)
    then show ?thesis using m Suc by (simp add: field_simps)
  qed
qed


text \<open>
  C9. For a positive \<open>micro_num\<close>, one full iteration over a dataset of length \<open>N\<close>
  yields \<open>ceil(N / micro_num)\<close> batches, the \<open>i\<close>-th one being the ascending run from
  \<open>i * micro_num\<close> up to \<open>min((i + 1) * micro_num, N)\<close>; their concatenation is
  \<open>0..N-1\<close>, \<open>__len__\<close> reports the number of batches, and the two counters advance by
  the number of batches and by \<open>N\<close>.
\<close>

theorem mocked_sequential_batches:
  assumes m: "0 < micro_num s"
  defines "n \<equiv> train_ds_len s" and "k \<equiv> nat (micro_num s)"
  shows "\<exists>bs s'. mocked_iter s = Inr (bs, s')
           \<and> int (length bs) = \<lceil>real n / real_of_int (micro_num s)\<rceil>
           \<and> (\<forall>i < length bs. bs ! i = [i * k..<min ((i + 1) * k) n])
           \<and> concat bs = [0..<n]
           \<and> mocked_len s = Inr (int (length bs))
           \<and> batch_count s' = batch_count s + int (length bs)
           \<and> num_consumed_samples_in_epoch s' = num_consumed_samples_in_epoch s + int n"
proof -
  define c where "c = (n + k - 1) div k"
  define starts where "starts = map (\<lambda>i. i * k) [0..<c]"
  define r where "r = mocked_loop n k starts s"
  have k: "0 < k" using m by (simp add: k_def)
  have mk: "micro_num s = int k" using m by (simp add: k_def)
  have "py_range 0 n k = starts"
    unfolding starts_def c_def by (rule py_range_zero)
  then have it: "mocked_iter s = Inr (fst r, snd r)"
    using m by (simp add: mocked_iter_def Let_def n_def k_def r_def)
  have bs: "fst r = map (\<lambda>st. [st..<min (st + k) n]) starts"
    unfolding r_def by (rule mocked_loop_fst)
  have len: "length (fst r) = c" by (simp add: bs starts_def)
  have cover: "min (c * k) n = n" using ceil_div_cover [OF k, of n] by (simp add: c_def)
  have c1: "int (length (fst r)) = \<lceil>real n / real_of_int (micro_num s)\<rceil>"
    using ceiling_div_nat [OF k, of n] by (simp add: len mk c_def)
  have c2: "\<forall>i < length (fst r). fst r ! i = [i * k..<min ((i + 1) * k) n]"
    by (simp add: bs starts_def add.commute)
  have "concat (fst r) = [0..<min (c * k) n]"
    unfolding bs starts_def by (rule concat_runs [OF k]) (simp add: c_def)
  then have c3: "concat (fst r) = [0..<n]" by (simp only: cover)
  have "(int n + int k - 1) div int k = int ((n + k - 1) div k)"
    using k by (simp add: zdiv_int of_nat_diff)
  then have c4: "mocked_len s = Inr (int (length (fst r)))"
    using k by (simp add: mocked_len_def len mk n_def c_def)
  have c5: "batch_count (snd r) = batch_count s + int (length (fst r))"
    unfolding len unfolding r_def mocked_loop_batch_count by (simp add: starts_def)
  have "num_consumed_samples_in_epoch (snd r) = num_consumed_samples_in_epoch s + int (min (c * k) n)"
    unfolding r_def starts_def mocked_loop_consumed
    using consumed_runs [OF k, of c n] by (simp add: c_def)
  then have c6: "num_consumed_samples_in_epoch (snd r) = num_consumed_samples_in_epoch s + int n"
    by (simp only: cover)
  from it c1 c2 c3 c4 c5 c6 show ?thesis by blast
qed

theorem mocked_sequential_batches_witness:
  "0 < micro_num (mocked_init 7 3) \<and>
   mocked_iter (mocked_init 7 3) =
     Inr ([[0, 1, 2], [3, 4, 5], [6]],
          \<lparr>train_ds_len = 7, micro_num = 3, batch_count = 3, num_consumed_samples_in_epoch = 7\<rparr>) \<and>
   mocked_len (mocked_init 7 3) = Inr 3"
  using mocked_sequential_batches [of "mocked_init 7 3"]
  by (simp add: mocked_init_def mocked_iter_def mocked_len_def py_range_def upt_rec [of _ "numeral _"] upt_rec [of _ "Suc _"])

end
